theory Spec2Isabelle
  imports Main "HOL-Library.Multiset" "HOL-Library.AList"
begin

section \<open>The Remote Query Client (\<^verbatim>\<open>api.service.ts\<close>)\<close>

text \<open>
  The two HTTP calls of \<^verbatim>\<open>ApiService\<close>. A method that subscribes to one of them returns
  the request it has issued; the response is delivered later to the \<^verbatim>\<open>next\<close> or the
  \<^verbatim>\<open>error\<close> callback, each a function of its own below.
\<close>

datatype Request = checkStatus | askQuestion string

text \<open>
  The responses are untyped in the service (\<^verbatim>\<open>Observable<any>\<close>); the component reads
  the fields below and expects strings in them. An optional field is \<open>None\<close> when it is
  absent or holds a falsy value that is not a string (\<^verbatim>\<open>undefined\<close>, \<^verbatim>\<open>null\<close>, \<^verbatim>\<open>0\<close>,
  \<^verbatim>\<open>false\<close>), all of which \<^verbatim>\<open>||\<close> treats alike.
\<close>

record StatusResponse =
  status :: string
  message :: "string option"

record AskResponse =
  answer :: "string option"
  inference_time :: "string option"


section \<open>Data model of \<^verbatim>\<open>app.component.ts\<close>\<close>

text \<open>
  \<^verbatim>\<open>interface AnswerHistoryItem\<close>. The timestamp is the value of \<^verbatim>\<open>Date.now()\<close>, an
  integer number of milliseconds; it is modelled as \<^typ>\<open>int\<close>. IEEE-754 values that are
  not integers (\<^verbatim>\<open>NaN\<close>, infinities, fractions) are outside this model. Strings are
  lists of code units below 256.
\<close>

record AnswerHistoryItem =
  question :: string
  answer :: string
  inferenceTime :: string
  timestamp :: int

text \<open>The union type of \<^verbatim>\<open>currentSort\<close>.\<close>

datatype SortMode = time_desc | time_asc | alpha_asc | alpha_desc

text \<open>The fields of \<^verbatim>\<open>class AppComponent\<close>, in the order of their declaration.\<close>

record AppComponent =
  title :: string
  question :: string
  answer :: string
  inferenceTime :: string
  isLoading :: bool
  apiStatus :: string
  errorMessage :: string
  answerHistory :: "AnswerHistoryItem list"
  filteredHistory :: "AnswerHistoryItem list"
  currentSort :: SortMode
  historyLimit :: int

text \<open>The field initialisers: the component as the constructor leaves it.\<close>

definition AppComponent_new :: AppComponent where
  "AppComponent_new =
     \<lparr> title = ''Ubestream RAG Assistant'',
       question = '''',
       answer = '''',
       inferenceTime = '''',
       isLoading = False,
       apiStatus = ''Checking...'',
       errorMessage = '''',
       answerHistory = [],
       filteredHistory = [],
       currentSort = time_desc,
       historyLimit = 10 \<rparr>"


section \<open>The browser: local storage, console, built-in functions\<close>

text \<open>
  What the component calls but does not define. \<^verbatim>\<open>localStorage\<close> is a list of key/value
  pairs with a capacity: \<^verbatim>\<open>setItem\<close> throws \<^verbatim>\<open>QuotaExceededError\<close> when the store would
  grow beyond it (a capacity of 0 is a store that accepts nothing). The console records the
  first argument of every \<^verbatim>\<open>console.log\<close> and \<^verbatim>\<open>console.error\<close> call, in order.
\<close>

datatype JsError = SyntaxError | TypeError | QuotaExceededError

datatype LogEntry = ConsoleLog string | ConsoleError string

record Browser =
  localStorage :: "(string \<times> string) list"
  quota :: nat
  console :: "LogEntry list"

definition stored_size :: "(string \<times> string) list \<Rightarrow> nat" where
  "stored_size items = sum_list (map (\<lambda>(k, v). length k + length v) items)"

definition getItem :: "string \<Rightarrow> Browser \<Rightarrow> string option" where
  "getItem k b = map_of (localStorage b) k"

definition setItem :: "string \<Rightarrow> string \<Rightarrow> Browser \<Rightarrow> JsError + Browser" where
  "setItem k v b =
     (let items = AList.update k v (localStorage b)
      in if quota b < stored_size items then Inl QuotaExceededError
         else Inr (b\<lparr>localStorage := items\<rparr>))"

definition removeItem :: "string \<Rightarrow> Browser \<Rightarrow> Browser" where
  "removeItem k b = b\<lparr>localStorage := AList.delete k (localStorage b)\<rparr>"

definition console_log :: "string \<Rightarrow> Browser \<Rightarrow> Browser" where
  "console_log msg b = b\<lparr>console := console b @ [ConsoleLog msg]\<rparr>"

definition console_error :: "string \<Rightarrow> Browser \<Rightarrow> Browser" where
  "console_error msg b = b\<lparr>console := console b @ [ConsoleError msg]\<rparr>"

text \<open>
  The built-in functions whose algorithms are the engine's, taken as parameters:
  \<^item> \<open>JSON_stringify\<close> is \<^verbatim>\<open>JSON.stringify\<close> on a history array;
  \<^item> \<open>JSON_parse\<close> is \<^verbatim>\<open>JSON.parse\<close> read at the type the component assigns its result
    to, \<^verbatim>\<open>AnswerHistoryItem[]\<close>: \<open>Inr h\<close> when the text is the JSON of the records \<open>h\<close>,
    \<open>Inl e\<close> when the call (or the traversal of its result that follows it inside the same
    \<^verbatim>\<open>try\<close>) throws \<open>e\<close>;
  \<^item> \<open>localeCompare\<close> is \<^verbatim>\<open>String.prototype.localeCompare\<close>: negative, zero or positive.
\<close>

record Platform =
  JSON_stringify :: "AnswerHistoryItem list \<Rightarrow> string"
  JSON_parse :: "string \<Rightarrow> JsError + AnswerHistoryItem list"
  localeCompare :: "string \<Rightarrow> string \<Rightarrow> int"

text \<open>
  \<^verbatim>\<open>Array.prototype.sort(comparefn)\<close>: the sort is stable (ECMAScript 2019), so for a
  consistent comparator its result is the one of a stable insertion sort: an element goes
  in front of the first element it does not compare greater than.
\<close>

fun insert_cmp :: "('a \<Rightarrow> 'a \<Rightarrow> int) \<Rightarrow> 'a \<Rightarrow> 'a list \<Rightarrow> 'a list" where
  "insert_cmp cmp x [] = [x]"
| "insert_cmp cmp x (y # ys) =
     (if cmp x y \<le> 0 then x # y # ys else y # insert_cmp cmp x ys)"

definition Array_sort :: "('a \<Rightarrow> 'a \<Rightarrow> int) \<Rightarrow> 'a list \<Rightarrow> 'a list" where
  "Array_sort cmp xs = foldr (insert_cmp cmp) xs []"

text \<open>
  \<^verbatim>\<open>String.prototype.trim\<close>: strips white space and line terminators from both ends. Of
  the code points ECMAScript lists, those below 256 are TAB, LF, VT, FF, CR, SP and NBSP.
\<close>

definition isWhiteSpace :: "char \<Rightarrow> bool" where
  "isWhiteSpace ch = (ch \<in> set [CHR 0x09, CHR 0x0A, CHR 0x0B, CHR 0x0C, CHR 0x0D, CHR 0x20, CHR 0xA0])"

definition trim :: "string \<Rightarrow> string" where
  "trim s = rev (dropWhile isWhiteSpace (rev (dropWhile isWhiteSpace s)))"

text \<open>\<^verbatim>\<open>Number(x)\<close> on a value that is a number already.\<close>

definition Number :: "int \<Rightarrow> int" where
  "Number n = n"

text \<open>
  \<^verbatim>\<open>v || d\<close> on an optional string: \<open>None\<close> and the empty string are falsy, every other
  string is truthy.
\<close>

definition or_else :: "string option \<Rightarrow> string \<Rightarrow> string" where
  "or_else v d = (case v of None \<Rightarrow> d | Some s \<Rightarrow> if s = [] then d else s)"


section \<open>The methods of \<^verbatim>\<open>AppComponent\<close>\<close>

definition STORAGE_KEY :: string where
  "STORAGE_KEY = ''ubestream_rag_history''"

fun loadHistoryFromLocalStorage :: "Platform \<Rightarrow> AppComponent \<times> Browser \<Rightarrow> AppComponent \<times> Browser" where
  "loadHistoryFromLocalStorage P (c, b) =
     (case getItem STORAGE_KEY b of
        None \<Rightarrow> (c, b)
      | Some historyJson \<Rightarrow>
          if historyJson = [] then (c, b)
          else (case JSON_parse P historyJson of
                  Inr parsed \<Rightarrow>
                    (c\<lparr>answerHistory :=
                         map (\<lambda>item. item\<lparr>timestamp := Number (timestamp item)\<rparr>) parsed\<rparr>,
                     console_log ''History loaded from local storage:'' b)
                | Inl e \<Rightarrow>
                    (c\<lparr>answerHistory := []\<rparr>,
                     console_error ''Failed to load history from local storage'' b)))"

definition saveHistoryToLocalStorage :: "Platform \<Rightarrow> AppComponent \<Rightarrow> Browser \<Rightarrow> Browser" where
  "saveHistoryToLocalStorage P c b =
     (case setItem STORAGE_KEY (JSON_stringify P (answerHistory c)) b of
        Inr b' \<Rightarrow> console_log ''History saved to local storage.'' b'
      | Inl e \<Rightarrow> console_error ''Failed to save history to local storage'' b)"

text \<open>\<open>confirmed\<close> is what \<^verbatim>\<open>confirm(...)\<close> returns: the user's answer to the dialog.\<close>

fun clearHistory :: "bool \<Rightarrow> AppComponent \<times> Browser \<Rightarrow> AppComponent \<times> Browser" where
  "clearHistory confirmed (c, b) =
     (if confirmed
      then (c\<lparr>answerHistory := [], filteredHistory := []\<rparr>,
            console_log ''History cleared.'' (removeItem STORAGE_KEY b))
      else (c, b))"

definition applySortingAndFiltering :: "Platform \<Rightarrow> AppComponent \<Rightarrow> AppComponent" where
  "applySortingAndFiltering P c =
     (let sorted = answerHistory c;
          sorted =
            (case currentSort c of
               time_desc \<Rightarrow> Array_sort (\<lambda>a b. timestamp b - timestamp a) sorted
             | time_asc \<Rightarrow> Array_sort (\<lambda>a b. timestamp a - timestamp b) sorted
             | alpha_asc \<Rightarrow>
                 Array_sort (\<lambda>a b. localeCompare P (AnswerHistoryItem.question a)
                                                    (AnswerHistoryItem.question b)) sorted
             | alpha_desc \<Rightarrow>
                 Array_sort (\<lambda>a b. localeCompare P (AnswerHistoryItem.question b)
                                                    (AnswerHistoryItem.question a)) sorted)
      in c\<lparr>filteredHistory := sorted\<rparr>)"

definition checkApiStatus :: "AppComponent \<Rightarrow> AppComponent \<times> Request" where
  "checkApiStatus c = (c\<lparr>apiStatus := ''Checking...''\<rparr>, checkStatus)"

definition checkApiStatus_next :: "StatusResponse \<Rightarrow> AppComponent \<Rightarrow> AppComponent" where
  "checkApiStatus_next response c =
     (let c = c\<lparr>apiStatus := (if status response = ''ready'' then ''Ready'' else ''Not Ready'')\<rparr>
      in if status response \<noteq> ''ready''
         then c\<lparr>errorMessage := or_else (message response) ''API is not ready.''\<rparr>
         else c\<lparr>errorMessage := ''''\<rparr>)"

fun checkApiStatus_error :: "AppComponent \<times> Browser \<Rightarrow> AppComponent \<times> Browser" where
  "checkApiStatus_error (c, b) =
     (c\<lparr>apiStatus := ''Error'',
        errorMessage := ''Could not connect to backend API. Please ensure FastAPI server is running on http://localhost:8006.''\<rparr>,
      console_error ''API Status Check Error:'' b)"

fun ngOnInit :: "Platform \<Rightarrow> AppComponent \<times> Browser \<Rightarrow> (AppComponent \<times> Browser) \<times> Request" where
  "ngOnInit P (c, b) =
     (case checkApiStatus c of
        (c, request) \<Rightarrow>
          (case loadHistoryFromLocalStorage P (c, b) of
             (c, b) \<Rightarrow> ((applySortingAndFiltering P c, b), request)))"

text \<open>
  \<^verbatim>\<open>sendQuestion\<close> up to the subscription: the new state and the request issued, if any.
  The question captured in \<^verbatim>\<open>currentQuestion\<close> travels in the request.
\<close>

definition sendQuestion :: "AppComponent \<Rightarrow> AppComponent \<times> Request option" where
  "sendQuestion c =
     (if trim (question c) = [] then (c\<lparr>errorMessage := ''Please enter a question.''\<rparr>, None)
      else
        (let c = c\<lparr>isLoading := True\<rparr>;
             c = c\<lparr>answer := ''''\<rparr>;
             c = c\<lparr>inferenceTime := ''''\<rparr>;
             c = c\<lparr>errorMessage := ''''\<rparr>;
             currentQuestion = question c
         in (c, Some (askQuestion currentQuestion))))"

text \<open>
  The \<^verbatim>\<open>next\<close> callback of that subscription. \<open>now\<close> is what \<^verbatim>\<open>Date.now()\<close> returns when
  the response arrives.
\<close>

fun sendQuestion_next ::
  "Platform \<Rightarrow> int \<Rightarrow> string \<Rightarrow> AskResponse \<Rightarrow> AppComponent \<times> Browser \<Rightarrow> AppComponent \<times> Browser" where
  "sendQuestion_next P now currentQuestion response (c, b) =
     (let c = c\<lparr>answer := or_else (AskResponse.answer response) ''No answer received.''\<rparr>;
          c = c\<lparr>inferenceTime := or_else (inference_time response) ''N/A''\<rparr>;
          c = c\<lparr>isLoading := False\<rparr>;
          newHistoryItem =
            \<lparr> AnswerHistoryItem.question = currentQuestion,
              AnswerHistoryItem.answer = answer c,
              AnswerHistoryItem.inferenceTime = inferenceTime c,
              timestamp = now \<rparr>;
          c = c\<lparr>answerHistory := answerHistory c @ [newHistoryItem]\<rparr>;
          b = saveHistoryToLocalStorage P c b;
          c = applySortingAndFiltering P c
      in (c\<lparr>question := ''''\<rparr>, b))"

text \<open>The \<^verbatim>\<open>error\<close> callback.\<close>

fun sendQuestion_error :: "AppComponent \<times> Browser \<Rightarrow> AppComponent \<times> Browser" where
  "sendQuestion_error (c, b) =
     (c\<lparr>errorMessage := ''Failed to get answer. Check console for details. Ensure Ollama server is running and models are pulled.'',
        isLoading := False\<rparr>,
      console_error ''Ask Question Error:'' b)"


section \<open>The submit bindings of \<^verbatim>\<open>app.component.html\<close>\<close>

text \<open>
  The textarea binds \<^verbatim>\<open>(keyup.enter)="sendQuestion()"\<close>. The button binds
  \<^verbatim>\<open>(click)="sendQuestion()"\<close> and \<^verbatim>\<open>[disabled]="isLoading || apiStatus !== 'Ready'"\<close>;
  a disabled button delivers no click.
\<close>

definition textarea_keyup_enter :: "AppComponent \<Rightarrow> AppComponent \<times> Request option" where
  "textarea_keyup_enter c = sendQuestion c"

definition button_disabled :: "AppComponent \<Rightarrow> bool" where
  "button_disabled c = (isLoading c \<or> apiStatus c \<noteq> ''Ready'')"

definition button_click :: "AppComponent \<Rightarrow> AppComponent \<times> Request option" where
  "button_click c = (if button_disabled c then (c, None) else sendQuestion c)"


section \<open>The states a callback passes through\<close>




section \<open>The engine's JSON\<close>

text \<open>
  \<^verbatim>\<open>JSON.stringify\<close> and \<^verbatim>\<open>JSON.parse\<close> as ECMAScript defines them, on the values of this
  model: strings of code units below 256 and integer numbers.
\<close>

subsection \<open>Writing\<close>

text \<open>
  \<^verbatim>\<open>QuoteJSONString\<close>: the double quote and the backslash are escaped with a backslash, the
  control characters below U+0020 with their short form where there is one (\<^verbatim>\<open>\b \t \n \f
  \r\<close>) and with \<^verbatim>\<open>\u00\<close> and two lower-case hexadecimal digits otherwise; every other code
  unit stands for itself.
\<close>

definition hex_digit :: "nat \<Rightarrow> char" where
  "hex_digit k = char_of (if k < 10 then 48 + k else 87 + k)"

definition json_escape :: "char \<Rightarrow> string" where
  "json_escape ch =
     (if ch = CHR 0x08 then [CHR 0x5C, CHR ''b'']
      else if ch = CHR 0x09 then [CHR 0x5C, CHR ''t'']
      else if ch = CHR 0x0A then [CHR 0x5C, CHR ''n'']
      else if ch = CHR 0x0C then [CHR 0x5C, CHR ''f'']
      else if ch = CHR 0x0D then [CHR 0x5C, CHR ''r'']
      else if ch = CHR 0x22 then [CHR 0x5C, CHR 0x22]
      else if ch = CHR 0x5C then [CHR 0x5C, CHR 0x5C]
      else if (of_char ch :: nat) < 32
        then [CHR 0x5C, CHR ''u'', CHR ''0'', CHR ''0'',
              hex_digit (of_char ch div 16), hex_digit (of_char ch mod 16)]
      else [ch])"

definition json_quote :: "string \<Rightarrow> string" where
  "json_quote s = CHR 0x22 # concat (map json_escape s) @ [CHR 0x22]"

text \<open>
  An integer is written in decimal, with a minus sign when it is negative (as the engine writes every
  integer of magnitude below \<^verbatim>\<open>1e21\<close>).
\<close>

function digits_of :: "int \<Rightarrow> string" where
  "digits_of n =
     (if n < 10 then [char_of (48 + n)] else digits_of (n div 10) @ [char_of (48 + n mod 10)])"
  by pat_completeness auto
termination
  by (relation "measure nat") auto

definition number_text :: "int \<Rightarrow> string" where
  "number_text n = (if n < 0 then CHR ''-'' # digits_of (- n) else digits_of n)"

text \<open>
  A record is written as an object with its four properties in the order in which
  \<open>sendQuestion\<close> creates them, an array as its elements separated by commas, both without
  white space.
\<close>

definition item_text :: "AnswerHistoryItem \<Rightarrow> string" where
  "item_text item =
     ''{'' @ json_quote ''question'' @ '':'' @ json_quote (AnswerHistoryItem.question item)
     @ '','' @ json_quote ''answer'' @ '':'' @ json_quote (AnswerHistoryItem.answer item)
     @ '','' @ json_quote ''inferenceTime'' @ '':'' @ json_quote (AnswerHistoryItem.inferenceTime item)
     @ '','' @ json_quote ''timestamp'' @ '':'' @ number_text (timestamp item)
     @ ''}''"

fun join_comma :: "string list \<Rightarrow> string" where
  "join_comma [] = []"
| "join_comma [x] = x"
| "join_comma (x # y # ys) = x @ '','' @ join_comma (y # ys)"

definition engine_stringify :: "AnswerHistoryItem list \<Rightarrow> string" where
  "engine_stringify h = ''['' @ join_comma (map item_text h) @ '']''"

subsection \<open>Reading\<close>

text \<open>
  The value of a JSON text. \<open>JReal\<close> is a number written with a fraction or an exponent,
  \<open>JString None\<close> a string with an escaped code unit of 256 or more: both are JSON, and
  neither has a value in this model. An object is the list of its members as written.
\<close>

datatype json =
    JNull
  | JBool bool
  | JNumber int
  | JReal
  | JString "string option"
  | JArray "json list"
  | JObject "(string option \<times> json) list"

definition is_json_ws :: "char \<Rightarrow> bool" where
  "is_json_ws ch = (ch \<in> set [CHR 0x20, CHR 0x09, CHR 0x0A, CHR 0x0D])"

definition skip_ws :: "string \<Rightarrow> string" where
  "skip_ws s = dropWhile is_json_ws s"

definition is_digit :: "char \<Rightarrow> bool" where
  "is_digit ch = (48 \<le> (of_char ch :: nat) \<and> (of_char ch :: nat) \<le> 57)"

definition decimal :: "string \<Rightarrow> int" where
  "decimal ds = foldl (\<lambda>a d. 10 * a + (of_char d - 48)) 0 ds"

definition hex_val :: "char \<Rightarrow> nat option" where
  "hex_val ch =
     (let k = (of_char ch :: nat) in
      if 48 \<le> k \<and> k \<le> 57 then Some (k - 48)
      else if 97 \<le> k \<and> k \<le> 102 then Some (k - 87)
      else if 65 \<le> k \<and> k \<le> 70 then Some (k - 55)
      else None)"

definition hex4 :: "char \<Rightarrow> char \<Rightarrow> char \<Rightarrow> char \<Rightarrow> nat option" where
  "hex4 a b c d =
     (case (hex_val a, hex_val b, hex_val c, hex_val d) of
        (Some w, Some x, Some y, Some z) \<Rightarrow> Some (4096 * w + 256 * x + 16 * y + z)
      | _ \<Rightarrow> None)"

definition simple_escape :: "char \<Rightarrow> char option" where
  "simple_escape e =
     (if e = CHR 0x22 then Some (CHR 0x22)
      else if e = CHR 0x5C then Some (CHR 0x5C)
      else if e = CHR ''/'' then Some (CHR ''/'')
      else if e = CHR ''b'' then Some (CHR 0x08)
      else if e = CHR ''f'' then Some (CHR 0x0C)
      else if e = CHR ''n'' then Some (CHR 0x0A)
      else if e = CHR ''r'' then Some (CHR 0x0D)
      else if e = CHR ''t'' then Some (CHR 0x09)
      else None)"

text \<open>
  The characters of a string, after its opening quote, up to the closing one: the string
  read and the rest of the text, or \<open>None\<close> where the text is not JSON (no closing quote, a
  raw control character, an unknown escape).
\<close>

definition add_unit :: "nat \<Rightarrow> (string option \<times> string) option \<Rightarrow> (string option \<times> string) option" where
  "add_unit k res =
     (case res of
        None \<Rightarrow> None
      | Some (None, r) \<Rightarrow> Some (None, r)
      | Some (Some s, r) \<Rightarrow> Some (if k < 256 then Some (char_of k # s) else None, r))"

fun lex_chars :: "string \<Rightarrow> (string option \<times> string) option" where
  "lex_chars [] = None"
| "lex_chars (ch # cs) =
     (if ch = CHR 0x22 then Some (Some [], cs)
      else if ch = CHR 0x5C then
        (case cs of
           [] \<Rightarrow> None
         | e # cs' \<Rightarrow>
             if e = CHR ''u'' then
               (case cs' of
                  a # b # c # d # cs'' \<Rightarrow>
                    (case hex4 a b c d of
                       None \<Rightarrow> None
                     | Some k \<Rightarrow> add_unit k (lex_chars cs''))
                | _ \<Rightarrow> None)
             else
               (case simple_escape e of
                  None \<Rightarrow> None
                | Some x \<Rightarrow> add_unit (of_char x) (lex_chars cs')))
      else if (of_char ch :: nat) < 32 then None
      else add_unit (of_char ch) (lex_chars cs))"

text \<open>
  A number: an optional minus sign, digits without a leading zero, an optional fraction,
  an optional exponent.
\<close>

definition lex_fraction :: "string \<Rightarrow> (bool \<times> string) option" where
  "lex_fraction s =
     (case s of
        [] \<Rightarrow> Some (False, s)
      | ch # t \<Rightarrow>
          if ch = CHR ''.'' then
            (if takeWhile is_digit t = [] then None else Some (True, dropWhile is_digit t))
          else Some (False, s))"

definition lex_exponent :: "string \<Rightarrow> (bool \<times> string) option" where
  "lex_exponent s =
     (case s of
        [] \<Rightarrow> Some (False, s)
      | ch # t \<Rightarrow>
          if ch = CHR ''e'' \<or> ch = CHR ''E'' then
            (let t = (case t of
                        [] \<Rightarrow> t
                      | sg # u \<Rightarrow> if sg = CHR ''+'' \<or> sg = CHR ''-'' then u else t)
             in if takeWhile is_digit t = [] then None else Some (True, dropWhile is_digit t))
          else Some (False, s))"

definition lex_number :: "string \<Rightarrow> (json \<times> string) option" where
  "lex_number s =
     (let negative = (s \<noteq> [] \<and> hd s = CHR ''-'');
          s = (if negative then tl s else s);
          ds = takeWhile is_digit s
      in if ds = [] \<or> (1 < length ds \<and> hd ds = CHR ''0'') then None
         else
           (case lex_fraction (dropWhile is_digit s) of
              None \<Rightarrow> None
            | Some (fraction, s) \<Rightarrow>
                (case lex_exponent s of
                   None \<Rightarrow> None
                 | Some (exponent, s) \<Rightarrow>
                     Some (if fraction \<or> exponent then JReal
                           else JNumber (if negative then - decimal ds else decimal ds),
                           s))))"

definition lex_literal :: "string \<Rightarrow> (json \<times> string) option" where
  "lex_literal s =
     (if take 4 s = ''true'' then Some (JBool True, drop 4 s)
      else if take 5 s = ''false'' then Some (JBool False, drop 5 s)
      else if take 4 s = ''null'' then Some (JNull, drop 4 s)
      else None)"

text \<open>
  A value, the elements of an array after the first bracket, the members of an object
  after the first brace: what was read and the rest of the text. The first argument bounds
  the number of nested calls; \<open>json_parse\<close> starts with more than a text of that length can
  need.
\<close>

fun parse_value :: "nat \<Rightarrow> string \<Rightarrow> (json \<times> string) option"
  and parse_elements :: "nat \<Rightarrow> json list \<Rightarrow> string \<Rightarrow> (json \<times> string) option"
  and parse_members :: "nat \<Rightarrow> (string option \<times> json) list \<Rightarrow> string \<Rightarrow> (json \<times> string) option"
where
  "parse_value 0 s = None"
| "parse_value (Suc n) s =
     (case skip_ws s of
        [] \<Rightarrow> None
      | ch # cs \<Rightarrow>
          if ch = CHR ''['' then
            (case skip_ws cs of
               [] \<Rightarrow> None
             | c # r \<Rightarrow> if c = CHR '']'' then Some (JArray [], r) else parse_elements n [] cs)
          else if ch = CHR ''{'' then
            (case skip_ws cs of
               [] \<Rightarrow> None
             | c # r \<Rightarrow> if c = CHR ''}'' then Some (JObject [], r) else parse_members n [] cs)
          else if ch = CHR 0x22 then
            (case lex_chars cs of
               None \<Rightarrow> None
             | Some (str, r) \<Rightarrow> Some (JString str, r))
          else if ch = CHR ''-'' \<or> is_digit ch then lex_number (ch # cs)
          else lex_literal (ch # cs))"
| "parse_elements 0 acc s = None"
| "parse_elements (Suc n) acc s =
     (case parse_value n s of
        None \<Rightarrow> None
      | Some (v, r) \<Rightarrow>
          (case skip_ws r of
             [] \<Rightarrow> None
           | c # r' \<Rightarrow>
               if c = CHR '','' then parse_elements n (acc @ [v]) r'
               else if c = CHR '']'' then Some (JArray (acc @ [v]), r')
               else None))"
| "parse_members 0 acc s = None"
| "parse_members (Suc n) acc s =
     (case skip_ws s of
        [] \<Rightarrow> None
      | q # cs \<Rightarrow>
          if q \<noteq> CHR 0x22 then None
          else
            (case lex_chars cs of
               None \<Rightarrow> None
             | Some (key, r) \<Rightarrow>
                 (case skip_ws r of
                    [] \<Rightarrow> None
                  | c # r' \<Rightarrow>
                      if c \<noteq> CHR '':'' then None
                      else
                        (case parse_value n r' of
                           None \<Rightarrow> None
                         | Some (v, r'') \<Rightarrow>
                             (case skip_ws r'' of
                                [] \<Rightarrow> None
                              | d # r3 \<Rightarrow>
                                  if d = CHR '','' then parse_members n (acc @ [(key, v)]) r3
                                  else if d = CHR ''}'' then Some (JObject (acc @ [(key, v)]), r3)
                                  else None)))))"

text \<open>The whole text is one value; \<open>None\<close> is the \<^verbatim>\<open>SyntaxError\<close>.\<close>

definition json_parse :: "string \<Rightarrow> json option" where
  "json_parse s =
     (case parse_value (2 * length s + 1) s of
        None \<Rightarrow> None
      | Some (v, r) \<Rightarrow> if skip_ws r = [] then Some v else None)"

subsection \<open>The value as a history\<close>

text \<open>
  What lines 55 to 57 of \<^verbatim>\<open>app.component.ts\<close> make of the parsed value. A value that is not
  an array has no \<^verbatim>\<open>forEach\<close>, and the call throws \<^verbatim>\<open>TypeError\<close>. On an element that is
  \<^verbatim>\<open>null\<close> or another primitive the assignment to \<^verbatim>\<open>item.timestamp\<close> throws \<^verbatim>\<open>TypeError\<close>
  (a class body is strict code). An element that is an object with exactly the four
  properties of a record, three strings and an integer, is that record. Any other element
  (an array, an object that is not a record) is kept by the code as it is and has no value
  of type \<open>AnswerHistoryItem\<close>: of an array with such an element and no throwing one,
  nothing is said (\<open>None\<close>). A member written twice has its last value.
\<close>

definition member :: "string \<Rightarrow> (string option \<times> json) list \<Rightarrow> json option" where
  "member k kvs = map_of (rev kvs) (Some k)"

definition decode_item :: "json \<Rightarrow> (JsError + AnswerHistoryItem) option" where
  "decode_item v =
     (case v of
        JObject kvs \<Rightarrow>
          (case (member ''question'' kvs, member ''answer'' kvs,
                 member ''inferenceTime'' kvs, member ''timestamp'' kvs) of
             (Some (JString (Some q)), Some (JString (Some a)),
              Some (JString (Some i)), Some (JNumber t)) \<Rightarrow>
               if length kvs = 4
               then Some (Inr \<lparr> AnswerHistoryItem.question = q, AnswerHistoryItem.answer = a,
                                AnswerHistoryItem.inferenceTime = i, timestamp = t \<rparr>)
               else None
           | _ \<Rightarrow> None)
      | JArray vs \<Rightarrow> None
      | _ \<Rightarrow> Some (Inl TypeError))"

fun decode_items :: "json list \<Rightarrow> (JsError + AnswerHistoryItem list) option" where
  "decode_items [] = Some (Inr [])"
| "decode_items (v # vs) =
     (case decode_item v of
        Some (Inl e) \<Rightarrow> Some (Inl e)
      | first \<Rightarrow>
          (case decode_items vs of
             Some (Inl e) \<Rightarrow> Some (Inl e)
           | None \<Rightarrow> None
           | Some (Inr items) \<Rightarrow>
               (case first of
                  Some (Inr item) \<Rightarrow> Some (Inr (item # items))
                | _ \<Rightarrow> None)))"

definition decode_history :: "json \<Rightarrow> (JsError + AnswerHistoryItem list) option" where
  "decode_history v = (case v of JArray vs \<Rightarrow> decode_items vs | _ \<Rightarrow> Some (Inl TypeError))"

definition engine_parse :: "string \<Rightarrow> JsError + AnswerHistoryItem list" where
  "engine_parse s =
     (case json_parse s of
        None \<Rightarrow> Inl SyntaxError
      | Some v \<Rightarrow> (case decode_history v of Some r \<Rightarrow> r | None \<Rightarrow> undefined))"

text \<open>The platform of a browser: the engine's JSON, and the locale's comparison \<open>lc\<close>.\<close>

definition engine :: "(string \<Rightarrow> string \<Rightarrow> int) \<Rightarrow> Platform" where
  "engine lc = \<lparr> JSON_stringify = engine_stringify, JSON_parse = engine_parse, localeCompare = lc \<rparr>"

text \<open>The value that the text of a record has.\<close>

definition item_json :: "AnswerHistoryItem \<Rightarrow> json" where
  "item_json item =
     JObject
       [(Some ''question'', JString (Some (AnswerHistoryItem.question item))),
        (Some ''answer'', JString (Some (AnswerHistoryItem.answer item))),
        (Some ''inferenceTime'', JString (Some (AnswerHistoryItem.inferenceTime item))),
        (Some ''timestamp'', JNumber (timestamp item))]"


section \<open>Inputs of the examples\<close>

text \<open>
  The examples below run on the engine's JSON, with strings compared as their code units
  are (the order of a locale on ASCII capitals). \<open>example_blob\<close> is the text that
  \<^verbatim>\<open>JSON.stringify\<close> writes for the one-record history \<open>[example_item]\<close>.
\<close>

definition example_item :: AnswerHistoryItem where
  "example_item =
     \<lparr> AnswerHistoryItem.question = ''hi'',
       AnswerHistoryItem.answer = ''ok'',
       AnswerHistoryItem.inferenceTime = ''1.2s'',
       timestamp = 1700000000000 \<rparr>"

definition example_blob :: string where
  \<open>example_blob =
     ''[{"question":"hi","answer":"ok","inferenceTime":"1.2s","timestamp":1700000000000}]''\<close>

fun compare_code_units :: "string \<Rightarrow> string \<Rightarrow> int" where
  "compare_code_units [] [] = 0"
| "compare_code_units [] (y # ys) = - 1"
| "compare_code_units (x # xs) [] = 1"
| "compare_code_units (x # xs) (y # ys) =
     (if (of_char x :: nat) < of_char y then - 1
      else if (of_char y :: nat) < of_char x then 1
      else compare_code_units xs ys)"

definition example_platform :: Platform where
  "example_platform = engine compare_code_units"

text \<open>
  Browsers: an empty store of 5 MiB; a store that accepts nothing; a store that holds
  \<open>example_blob\<close> under the key; a store that holds a truncated text under the key.
\<close>

definition example_browser :: Browser where
  "example_browser = \<lparr> localStorage = [], quota = 5242880, console = [] \<rparr>"

definition full_browser :: Browser where
  "full_browser = \<lparr> localStorage = [], quota = 0, console = [] \<rparr>"


definition corrupted_browser :: Browser where
  "corrupted_browser =
     \<lparr> localStorage = [(STORAGE_KEY, ''[{question:'')], quota = 5242880, console = [] \<rparr>"

text \<open>
  Components: the backend is ready and the user has typed \<^verbatim>\<open>hi\<close>; the status check has
  not answered yet and the user has typed \<^verbatim>\<open>hi\<close> and pressed Enter (the key press has put
  a line feed into the textarea); a request is in flight and the same text is in the
  textarea; the textarea holds a space, a tab and a line feed.
\<close>

definition ready_component :: AppComponent where
  "ready_component = AppComponent_new\<lparr>apiStatus := ''Ready'', question := ''hi''\<rparr>"

definition not_ready_component :: AppComponent where
  "not_ready_component = AppComponent_new\<lparr>question := ''hi'' @ [CHR 0x0A]\<rparr>"

definition loading_component :: AppComponent where
  "loading_component =
     AppComponent_new\<lparr>apiStatus := ''Ready'', isLoading := True, question := ''hi'' @ [CHR 0x0A]\<rparr>"

definition blank_component :: AppComponent where
  "blank_component =
     AppComponent_new\<lparr>apiStatus := ''Ready'', question := [CHR 0x20, CHR 0x09, CHR 0x0A]\<rparr>"

text \<open>Responses of \<^verbatim>\<open>POST /ask\<close>: a full one, and one without an answer and with an empty time.\<close>

definition ok_response :: AskResponse where
  "ok_response = \<lparr> AskResponse.answer = Some ''ok'', inference_time = Some ''1.2s'' \<rparr>"

definition empty_response :: AskResponse where
  "empty_response = \<lparr> AskResponse.answer = None, inference_time = Some '''' \<rparr>"


text \<open>The two records of the sorting example.\<close>

definition record_A :: AnswerHistoryItem where
  "record_A =
     \<lparr> AnswerHistoryItem.question = ''A'', AnswerHistoryItem.answer = ''a1'',
       AnswerHistoryItem.inferenceTime = ''1s'', timestamp = 100 \<rparr>"

definition record_B :: AnswerHistoryItem where
  "record_B =
     \<lparr> AnswerHistoryItem.question = ''B'', AnswerHistoryItem.answer = ''a2'',
       AnswerHistoryItem.inferenceTime = ''2s'', timestamp = 200 \<rparr>"


text \<open>
  A second record, whose question holds a double quote, a backslash, a line feed, the
  control character U+0001 and the letter U+00E9 and whose answer ends in a tab, and a
  third one.
\<close>

definition quoted_item :: AnswerHistoryItem where
  "quoted_item =
     \<lparr> AnswerHistoryItem.question = [CHR ''a'', CHR 0x22, CHR 0x5C, CHR 0x0A, CHR 0x01, CHR 0xE9],
       AnswerHistoryItem.answer = ''two'' @ [CHR 0x09],
       AnswerHistoryItem.inferenceTime = ''0.5s'',
       timestamp = 1700000000500 \<rparr>"

definition third_item :: AnswerHistoryItem where
  "third_item =
     \<lparr> AnswerHistoryItem.question = ''why?'',
       AnswerHistoryItem.answer = ''because'',
       AnswerHistoryItem.inferenceTime = ''3s'',
       timestamp = 1700000001000 \<rparr>"

text \<open>
  A component in use: two records in its history, shown in alphabetical order, the last
  answer on display, a new question typed. A component whose history is the one stored
  record. A browser in use: another key in the store, the two records under the key, a line
  on the console. A browser whose store has room for 150 code units and holds
  \<open>example_blob\<close>.
\<close>

definition busy_component :: AppComponent where
  "busy_component =
     AppComponent_new
       \<lparr> question := ''why?'',
         answer := ''two'' @ [CHR 0x09],
         inferenceTime := ''0.5s'',
         apiStatus := ''Ready'',
         answerHistory := [example_item, quoted_item],
         filteredHistory := [quoted_item, example_item],
         currentSort := alpha_asc \<rparr>"

definition stored_component :: AppComponent where
  "stored_component =
     AppComponent_new
       \<lparr> apiStatus := ''Ready'',
         answerHistory := [example_item],
         filteredHistory := [example_item] \<rparr>"

definition used_browser :: Browser where
  "used_browser =
     \<lparr> localStorage =
         [(''theme'', ''dark''), (STORAGE_KEY, engine_stringify [example_item, quoted_item])],
       quota = 5242880,
       console = [ConsoleLog ''History loaded from local storage:''] \<rparr>"

definition tight_browser :: Browser where
  "tight_browser =
     \<lparr> localStorage = [(STORAGE_KEY, example_blob)], quota = 150, console = [] \<rparr>"


section \<open>Sorting: permutation and order\<close>

lemma mset_insert_cmp: "mset (insert_cmp cmp x xs) = add_mset x (mset xs)"
  by (induction xs) auto

lemma mset_Array_sort: "mset (Array_sort cmp xs) = mset xs"
  unfolding Array_sort_def by (induction xs) (auto simp: mset_insert_cmp)

lemma set_insert_cmp: "set (insert_cmp cmp x xs) = insert x (set xs)"
  by (induction xs) auto

text \<open>
  A comparator that decides a transitive relation \<open>R\<close> in both directions sorts by it.
\<close>

lemma sorted_wrt_insert_cmp:
  assumes tr: "transp R"
    and le: "\<And>a b. cmp a b \<le> 0 \<Longrightarrow> R a b"
    and gt: "\<And>a b. 0 < cmp a b \<Longrightarrow> R b a"
  shows "sorted_wrt R xs \<Longrightarrow> sorted_wrt R (insert_cmp cmp x xs)"
proof (induction xs)
  case Nil
  then show ?case by simp
next
  case (Cons y ys)
  show ?case
  proof (cases "cmp x y \<le> 0")
    case True
    then have xy: "R x y" by (rule le)
    have "R x z" if "z \<in> set ys" for z
      using xy Cons.prems that tr by (auto dest: transpD)
    with xy Cons.prems True show ?thesis by auto
  next
    case False
    then have "R y x" using gt [of x y] by simp
    with False Cons show ?thesis by (auto simp: set_insert_cmp)
  qed
qed

lemma sorted_wrt_Array_sort:
  assumes "transp R" "\<And>a b. cmp a b \<le> 0 \<Longrightarrow> R a b" "\<And>a b. 0 < cmp a b \<Longrightarrow> R b a"
  shows "sorted_wrt R (Array_sort cmp xs)"
  unfolding Array_sort_def
  by (induction xs) (auto intro: sorted_wrt_insert_cmp assms)

text \<open>
  On integer keys the model is the library's stable sort: oldest-first sorts by the
  timestamp, newest-first by its negation.
\<close>

lemma insert_cmp_insort_key:
  "insert_cmp (\<lambda>a b. f a - f b) x ys = insort_key f x ys" for f :: "'a \<Rightarrow> int"
  by (induction ys) simp_all

lemma Array_sort_sort_key:
  "Array_sort (\<lambda>a b. f a - f b) xs = sort_key f xs" for f :: "'a \<Rightarrow> int"
  by (simp add: Array_sort_def sort_key_def insert_cmp_insort_key [abs_def])

lemma Array_sort_time_asc:
  "Array_sort (\<lambda>a b. timestamp a - timestamp b) xs = sort_key timestamp xs"
  by (rule Array_sort_sort_key)

lemma Array_sort_time_desc:
  "Array_sort (\<lambda>a b. timestamp b - timestamp a) xs = sort_key (\<lambda>a. - timestamp a) xs"
  using Array_sort_sort_key [of "\<lambda>a. - timestamp a" xs] by simp

lemma sorted_time_desc:
  "sorted_wrt (\<lambda>a b. timestamp b \<le> timestamp a)
     (Array_sort (\<lambda>a b. timestamp b - timestamp a) (xs :: AnswerHistoryItem list))"
  by (rule sorted_wrt_Array_sort) (auto intro: transpI)

lemma sorted_time_asc:
  "sorted_wrt (\<lambda>a b. timestamp a \<le> timestamp b)
     (Array_sort (\<lambda>a b. timestamp a - timestamp b) (xs :: AnswerHistoryItem list))"
  by (rule sorted_wrt_Array_sort) (auto intro: transpI)

text \<open>
  C9. For every in-memory history and every order mode, \<open>applySortingAndFiltering\<close> leaves
  \<open>answerHistory\<close> as it was, changes no field but \<open>filteredHistory\<close>, and sets
  \<open>filteredHistory\<close> to a permutation of \<open>answerHistory\<close>: the same records with the same
  multiplicities.
\<close>

theorem applySortingAndFiltering_permutation:
  "answerHistory (applySortingAndFiltering P c) = answerHistory c
   \<and> mset (filteredHistory (applySortingAndFiltering P c)) = mset (answerHistory c)
   \<and> applySortingAndFiltering P c =
       c\<lparr>filteredHistory := filteredHistory (applySortingAndFiltering P c)\<rparr>"
  by (cases "currentSort c") (simp_all add: applySortingAndFiltering_def mset_Array_sort)

text \<open>
  C2. The view that \<open>applySortingAndFiltering\<close> computes depends on the records and the mode
  only: two components with the same \<open>answerHistory\<close> and \<open>currentSort\<close> get the same
  \<open>filteredHistory\<close>. In mode \<open>time_desc\<close> the timestamps of the result never increase. For
  the history \<open>[A at 100, B at 200]\<close>, newest-first gives \<open>[B, A]\<close>, and alphabetical
  ascending gives \<open>[A, B]\<close> in a locale that puts \<^verbatim>\<open>"A"\<close> before \<^verbatim>\<open>"B"\<close>.
\<close>

theorem applySortingAndFiltering_pure_ordered:
  "(answerHistory c = answerHistory c' \<and> currentSort c = currentSort c' \<longrightarrow>
      filteredHistory (applySortingAndFiltering P c) = filteredHistory (applySortingAndFiltering P c'))
   \<and> (currentSort c = time_desc \<longrightarrow>
        sorted_wrt (\<lambda>a b. timestamp b \<le> timestamp a)
          (filteredHistory (applySortingAndFiltering P c)))
   \<and> filteredHistory (applySortingAndFiltering P
        (c\<lparr>answerHistory :=
             [\<lparr>AnswerHistoryItem.question = ''A'', AnswerHistoryItem.answer = a1,
               AnswerHistoryItem.inferenceTime = i1, timestamp = 100\<rparr>,
              \<lparr>AnswerHistoryItem.question = ''B'', AnswerHistoryItem.answer = a2,
               AnswerHistoryItem.inferenceTime = i2, timestamp = 200\<rparr>],
           currentSort := time_desc\<rparr>)) =
        [\<lparr>AnswerHistoryItem.question = ''B'', AnswerHistoryItem.answer = a2,
          AnswerHistoryItem.inferenceTime = i2, timestamp = 200\<rparr>,
         \<lparr>AnswerHistoryItem.question = ''A'', AnswerHistoryItem.answer = a1,
          AnswerHistoryItem.inferenceTime = i1, timestamp = 100\<rparr>]
   \<and> (localeCompare P ''A'' ''B'' < 0 \<longrightarrow>
        filteredHistory (applySortingAndFiltering P
          (c\<lparr>answerHistory :=
               [\<lparr>AnswerHistoryItem.question = ''A'', AnswerHistoryItem.answer = a1,
                 AnswerHistoryItem.inferenceTime = i1, timestamp = 100\<rparr>,
                \<lparr>AnswerHistoryItem.question = ''B'', AnswerHistoryItem.answer = a2,
                 AnswerHistoryItem.inferenceTime = i2, timestamp = 200\<rparr>],
             currentSort := alpha_asc\<rparr>)) =
          [\<lparr>AnswerHistoryItem.question = ''A'', AnswerHistoryItem.answer = a1,
            AnswerHistoryItem.inferenceTime = i1, timestamp = 100\<rparr>,
           \<lparr>AnswerHistoryItem.question = ''B'', AnswerHistoryItem.answer = a2,
            AnswerHistoryItem.inferenceTime = i2, timestamp = 200\<rparr>])"
proof -
  have pure: "answerHistory c = answerHistory c' \<and> currentSort c = currentSort c' \<longrightarrow>
      filteredHistory (applySortingAndFiltering P c) = filteredHistory (applySortingAndFiltering P c')"
    by (simp add: applySortingAndFiltering_def Let_def)
  have ordered: "currentSort c = time_desc \<longrightarrow>
        sorted_wrt (\<lambda>a b. timestamp b \<le> timestamp a)
          (filteredHistory (applySortingAndFiltering P c))"
    by (simp add: applySortingAndFiltering_def Let_def sorted_time_desc)
  show ?thesis
    using pure ordered by (simp add: applySortingAndFiltering_def Let_def Array_sort_def)
qed

theorem applySortingAndFiltering_pure_ordered_witness:
  "answerHistory (ready_component\<lparr>answerHistory := [record_A, record_B]\<rparr>) =
     answerHistory (AppComponent_new\<lparr>answerHistory := [record_A, record_B]\<rparr>)
   \<and> currentSort (ready_component\<lparr>answerHistory := [record_A, record_B]\<rparr>) = time_desc
   \<and> currentSort (AppComponent_new\<lparr>answerHistory := [record_A, record_B]\<rparr>) = time_desc
   \<and> filteredHistory (applySortingAndFiltering example_platform
         (ready_component\<lparr>answerHistory := [record_A, record_B]\<rparr>)) =
       filteredHistory (applySortingAndFiltering example_platform
         (AppComponent_new\<lparr>answerHistory := [record_A, record_B]\<rparr>))
   \<and> sorted_wrt (\<lambda>a b. timestamp b \<le> timestamp a)
        (filteredHistory (applySortingAndFiltering example_platform
           (ready_component\<lparr>answerHistory := [record_A, record_B]\<rparr>)))
   \<and> filteredHistory (applySortingAndFiltering example_platform
         (ready_component\<lparr>answerHistory := [record_A, record_B], currentSort := time_desc\<rparr>)) =
       [record_B, record_A]
   \<and> localeCompare example_platform ''A'' ''B'' < 0
   \<and> filteredHistory (applySortingAndFiltering example_platform
         (ready_component\<lparr>answerHistory := [record_A, record_B], currentSort := alpha_asc\<rparr>)) =
       [record_A, record_B]"
  using applySortingAndFiltering_pure_ordered
    [of "ready_component\<lparr>answerHistory := [record_A, record_B]\<rparr>"
        "AppComponent_new\<lparr>answerHistory := [record_A, record_B]\<rparr>"
        example_platform "''a1''" "''1s''" "''a2''" "''2s''"]
  by (simp add: ready_component_def AppComponent_new_def record_A_def record_B_def
      example_platform_def engine_def applySortingAndFiltering_def Let_def Array_sort_def)


section \<open>Submitting a question\<close>

lemma trim_Nil_iff: "trim s = [] \<longleftrightarrow> list_all isWhiteSpace s"
proof
  assume "trim s = []"
  then have all: "\<forall>ch\<in>set (dropWhile isWhiteSpace s). isWhiteSpace ch"
    by (simp add: trim_def)
  have "dropWhile isWhiteSpace s = []"
  proof (rule ccontr)
    assume ne: "dropWhile isWhiteSpace s \<noteq> []"
    then have "\<not> isWhiteSpace (hd (dropWhile isWhiteSpace s))"
      by (simp add: hd_dropWhile)
    moreover have "hd (dropWhile isWhiteSpace s) \<in> set (dropWhile isWhiteSpace s)"
      using ne by simp
    ultimately show False using all by blast
  qed
  then show "list_all isWhiteSpace s" by (simp add: list_all_iff)
next
  assume "list_all isWhiteSpace s"
  then show "trim s = []" by (auto simp: trim_def list_all_iff dest: set_dropWhileD)
qed

text \<open>
  What \<open>sendQuestion\<close> checks is the text only: whenever the trimmed question is not empty
  it issues the request, whatever \<open>apiStatus\<close> and \<open>isLoading\<close> are.
\<close>

lemma sendQuestion_issues_request:
  "trim (question c) \<noteq> [] \<Longrightarrow> snd (sendQuestion c) = Some (askQuestion (question c))"
  by (simp add: sendQuestion_def Let_def)

lemma button_click_guarded:
  "isLoading c \<or> apiStatus c \<noteq> ''Ready'' \<Longrightarrow> button_click c = (c, None)"
  by (simp add: button_click_def button_disabled_def)

text \<open>
  C1. The guard on \<open>apiStatus\<close> and \<open>isLoading\<close> is the button's \<^verbatim>\<open>[disabled]\<close> binding
  alone; \<open>sendQuestion\<close> has none, and the textarea's \<^verbatim>\<open>(keyup.enter)\<close> binding calls it
  directly. With the status still \<^verbatim>\<open>Checking...\<close>, and again with a request in flight, the
  button is disabled and a click issues nothing, while Enter in the textarea issues
  \<open>askQuestion\<close>.
\<close>

theorem keyup_enter_bypasses_disabled_button:
  "button_disabled not_ready_component
   \<and> snd (button_click not_ready_component) = None
   \<and> snd (textarea_keyup_enter not_ready_component) = Some (askQuestion (''hi'' @ [CHR 0x0A]))
   \<and> button_disabled loading_component
   \<and> snd (button_click loading_component) = None
   \<and> snd (textarea_keyup_enter loading_component) = Some (askQuestion (''hi'' @ [CHR 0x0A]))"
  by (simp add: button_disabled_def button_click_def textarea_keyup_enter_def sendQuestion_def
      not_ready_component_def loading_component_def AppComponent_new_def trim_def isWhiteSpace_def)

text \<open>
  C5. When the question is empty or consists of white space only, \<open>sendQuestion\<close> issues no
  request, sets \<open>errorMessage\<close> to \<^verbatim>\<open>Please enter a question.\<close> and changes no other
  field; neither of the two submit bindings issues a request.
\<close>

theorem sendQuestion_blank:
  assumes "list_all isWhiteSpace (question c)"
  shows "sendQuestion c = (c\<lparr>errorMessage := ''Please enter a question.''\<rparr>, None)
     \<and> snd (textarea_keyup_enter c) = None
     \<and> snd (button_click c) = None"
  using assms
  by (simp add: sendQuestion_def textarea_keyup_enter_def button_click_def trim_Nil_iff)

theorem sendQuestion_blank_witness:
  "list_all isWhiteSpace (question blank_component)
   \<and> sendQuestion blank_component =
       (blank_component\<lparr>errorMessage := ''Please enter a question.''\<rparr>, None)
   \<and> snd (textarea_keyup_enter blank_component) = None
   \<and> snd (button_click blank_component) = None"
proof -
  have h: "list_all isWhiteSpace (question blank_component)"
    by (simp add: blank_component_def isWhiteSpace_def)
  show ?thesis using h sendQuestion_blank [OF h] by simp
qed

text \<open>
  C4. The \<^verbatim>\<open>error\<close> callback of a submission, in whatever state \<open>(c, b)\<close> it arrives: it
  leaves \<open>isLoading\<close> false and a non-empty \<open>errorMessage\<close>, and it changes neither
  \<open>answerHistory\<close> nor \<open>filteredHistory\<close> nor the local storage. The submission itself
  (\<open>sendQuestion\<close> from \<open>c0\<close>, issuing a request) had set \<open>isLoading\<close> and left the history
  as it was.
\<close>

theorem sendQuestion_error_keeps_history:
  "\<not> isLoading (fst (sendQuestion_error (c, b)))
   \<and> errorMessage (fst (sendQuestion_error (c, b))) \<noteq> []
   \<and> answerHistory (fst (sendQuestion_error (c, b))) = answerHistory c
   \<and> filteredHistory (fst (sendQuestion_error (c, b))) = filteredHistory c
   \<and> localStorage (snd (sendQuestion_error (c, b))) = localStorage b
   \<and> (sendQuestion c0 = (c, Some request) \<longrightarrow>
        isLoading c \<and> answerHistory c = answerHistory c0 \<and> filteredHistory c = filteredHistory c0)"
  by (auto simp: sendQuestion_def console_error_def Let_def split: if_splits)

theorem sendQuestion_error_keeps_history_witness:
  "sendQuestion ready_component = (fst (sendQuestion ready_component), Some (askQuestion ''hi''))
   \<and> isLoading (fst (sendQuestion ready_component))
   \<and> \<not> isLoading (fst (sendQuestion_error (fst (sendQuestion ready_component), example_browser)))
   \<and> errorMessage (fst (sendQuestion_error (fst (sendQuestion ready_component), example_browser))) \<noteq> []
   \<and> answerHistory (fst (sendQuestion_error (fst (sendQuestion ready_component), example_browser))) =
       answerHistory ready_component
   \<and> filteredHistory (fst (sendQuestion_error (fst (sendQuestion ready_component), example_browser))) =
       filteredHistory ready_component
   \<and> localStorage (snd (sendQuestion_error (fst (sendQuestion ready_component), example_browser))) =
       localStorage example_browser"
proof -
  have h: "sendQuestion ready_component =
             (fst (sendQuestion ready_component), Some (askQuestion ''hi''))"
    by (simp add: sendQuestion_def ready_component_def AppComponent_new_def trim_def
        isWhiteSpace_def)
  show ?thesis
    using h sendQuestion_error_keeps_history
      [of "fst (sendQuestion ready_component)" example_browser ready_component
          "askQuestion ''hi''"]
    by simp
qed

text \<open>
  C10. The \<^verbatim>\<open>next\<close> callback appends one record in every case: the question of the
  request, the answer and the inference time it displays, and the time of arrival. When the
  response's \<open>answer\<close> is absent or empty, the displayed answer, and so the record's, is
  \<^verbatim>\<open>No answer received.\<close>; when its \<open>inference_time\<close> is absent or empty, the displayed
  time, and so the record's, is \<^verbatim>\<open>N/A\<close>.
\<close>

theorem sendQuestion_next_defaults:
  "(let c' = fst (sendQuestion_next P now q response (c, b)) in
      answerHistory c' =
        answerHistory c @
          [\<lparr> AnswerHistoryItem.question = q, AnswerHistoryItem.answer = answer c',
             AnswerHistoryItem.inferenceTime = inferenceTime c', timestamp = now \<rparr>]
      \<and> (AskResponse.answer response = None \<or> AskResponse.answer response = Some []
           \<longrightarrow> answer c' = ''No answer received.'')
      \<and> (inference_time response = None \<or> inference_time response = Some []
           \<longrightarrow> inferenceTime c' = ''N/A''))"
  by (cases "currentSort c")
     (auto simp: Let_def applySortingAndFiltering_def or_else_def)

theorem sendQuestion_next_defaults_witness:
  "AskResponse.answer empty_response = None
   \<and> inference_time empty_response = Some []
   \<and> answer (fst (sendQuestion_next example_platform 1700000000000 ''hi'' empty_response
        (fst (sendQuestion ready_component), example_browser))) = ''No answer received.''
   \<and> inferenceTime (fst (sendQuestion_next example_platform 1700000000000 ''hi'' empty_response
        (fst (sendQuestion ready_component), example_browser))) = ''N/A''
   \<and> answerHistory (fst (sendQuestion_next example_platform 1700000000000 ''hi'' empty_response
        (fst (sendQuestion ready_component), example_browser))) =
       [\<lparr> AnswerHistoryItem.question = ''hi'', AnswerHistoryItem.answer = ''No answer received.'',
          AnswerHistoryItem.inferenceTime = ''N/A'', timestamp = 1700000000000 \<rparr>]"
proof -
  have a: "AskResponse.answer empty_response = None"
    and i: "inference_time empty_response = Some []"
    by (simp_all add: empty_response_def)
  have h: "answerHistory (fst (sendQuestion ready_component)) = []"
    by (simp add: sendQuestion_def ready_component_def AppComponent_new_def Let_def)
  show ?thesis
    using a i h sendQuestion_next_defaults
      [of example_platform 1700000000000 "''hi''" empty_response
          "fst (sendQuestion ready_component)" example_browser]
    by (simp add: Let_def)
qed


section \<open>JSON: what is written is read back\<close>

text \<open>
  The reader undoes the writer: an escaped string is read as the string, the decimal text
  of an integer as the integer, the text of a record as its value, and the text of a history
  as the history.
\<close>

lemma hex_val_hex_digit: "k < 16 \<Longrightarrow> hex_val (hex_digit k) = Some k"
  by (auto simp: hex_val_def hex_digit_def Let_def)

lemma hex4_control:
  "k < 32 \<Longrightarrow> hex4 (CHR ''0'') (CHR ''0'') (hex_digit (k div 16)) (hex_digit (k mod 16)) = Some k"
proof -
  assume k: "k < 32"
  have z: "hex_val (CHR ''0'') = Some 0" by (simp add: hex_val_def)
  have a: "hex_val (hex_digit (k div 16)) = Some (k div 16)"
    using k by (intro hex_val_hex_digit) simp
  have b: "hex_val (hex_digit (k mod 16)) = Some (k mod 16)"
    by (intro hex_val_hex_digit) simp
  show ?thesis by (simp add: hex4_def z a b)
qed

lemma lex_chars_escape:
  "lex_chars (json_escape ch @ t) = add_unit (of_char ch) (lex_chars t)"
proof -
  consider (b) "ch = CHR 0x08" | (t) "ch = CHR 0x09" | (n) "ch = CHR 0x0A" | (f) "ch = CHR 0x0C"
    | (r) "ch = CHR 0x0D" | (q) "ch = CHR 0x22" | (s) "ch = CHR 0x5C"
    | (u) "ch \<notin> {CHR 0x08, CHR 0x09, CHR 0x0A, CHR 0x0C, CHR 0x0D, CHR 0x22, CHR 0x5C}"
          "(of_char ch :: nat) < 32"
    | (p) "ch \<notin> {CHR 0x08, CHR 0x09, CHR 0x0A, CHR 0x0C, CHR 0x0D, CHR 0x22, CHR 0x5C}"
          "\<not> (of_char ch :: nat) < 32"
    by blast
  then show ?thesis
  proof cases
    case u
    then show ?thesis by (simp add: json_escape_def hex4_control)
  next
    case p
    then show ?thesis by (simp add: json_escape_def)
  qed (simp_all add: json_escape_def simple_escape_def)
qed

lemma lex_chars_quoted:
  "lex_chars (concat (map json_escape s) @ CHR 0x22 # rest) = Some (Some s, rest)"
proof (induction s)
  case Nil
  show ?case by simp
next
  case (Cons ch s)
  have "lex_chars (concat (map json_escape (ch # s)) @ CHR 0x22 # rest) =
        add_unit (of_char ch) (lex_chars (concat (map json_escape s) @ CHR 0x22 # rest))"
    using lex_chars_escape [of ch "concat (map json_escape s) @ CHR 0x22 # rest"] by simp
  also have "\<dots> = Some (Some (ch # s), rest)"
    by (simp add: Cons.IH add_unit_def)
  finally show ?case .
qed

declare digits_of.simps [simp del]

lemma of_char_digit: "0 \<le> d \<Longrightarrow> d < 10 \<Longrightarrow> (of_char (char_of (48 + d)) :: int) = 48 + d" for d :: int
  by (simp add: of_char_of)

lemma of_char_digit_nat: "0 \<le> d \<Longrightarrow> d < 10 \<Longrightarrow> (of_char (char_of (48 + d)) :: nat) = nat (48 + d)" for d :: int
  by (metis of_char_digit nat_int of_nat_of_char)

lemma is_digit_char_of: "0 \<le> d \<Longrightarrow> d < 10 \<Longrightarrow> is_digit (char_of (48 + d))" for d :: int
  by (simp add: is_digit_def of_char_digit_nat) linarith

lemma digits_of_digits: "0 \<le> n \<Longrightarrow> ch \<in> set (digits_of n) \<Longrightarrow> is_digit ch"
proof (induction n rule: digits_of.induct)
  case (1 n)
  show ?case
  proof (cases "n < 10")
    case True
    with "1.prems" show ?thesis
      by (subst (asm) digits_of.simps) (simp add: is_digit_char_of)
  next
    case False
    then have "ch \<in> set (digits_of (n div 10)) \<or> ch = char_of (48 + n mod 10)"
      using "1.prems"(2) by (subst (asm) digits_of.simps) auto
    then show ?thesis
    proof
      assume "ch \<in> set (digits_of (n div 10))"
      with "1.IH" False "1.prems"(1) show ?thesis by simp
    next
      assume "ch = char_of (48 + n mod 10)"
      then show ?thesis by (simp add: is_digit_char_of)
    qed
  qed
qed

lemma digits_of_not_Nil: "digits_of n \<noteq> []"
  by (subst digits_of.simps) simp

lemma decimal_snoc: "decimal (ds @ [d]) = 10 * decimal ds + (of_char d - 48)"
  by (simp add: decimal_def)

lemma decimal_digits_of: "0 \<le> n \<Longrightarrow> decimal (digits_of n) = n"
proof (induction n rule: digits_of.induct)
  case (1 n)
  show ?case
  proof (cases "n < 10")
    case True
    with "1.prems" show ?thesis
      by (subst digits_of.simps) (simp add: decimal_def of_char_digit)
  next
    case False
    with "1.IH" "1.prems" have "decimal (digits_of (n div 10)) = n div 10" by simp
    with False show ?thesis
      by (subst digits_of.simps) (simp add: decimal_snoc of_char_digit)
  qed
qed

lemma hd_digits_of: "1 \<le> n \<Longrightarrow> hd (digits_of n) \<noteq> CHR ''0''"
proof (induction n rule: digits_of.induct)
  case (1 n)
  show ?case
  proof (cases "n < 10")
    case True
    have "(of_char (char_of (48 + n)) :: int) \<noteq> of_char (CHR ''0'')"
      using True "1.prems" by (simp add: of_char_digit)
    then have "char_of (48 + n) \<noteq> CHR ''0''" by metis
    with True show ?thesis by (subst digits_of.simps) simp
  next
    case False
    with "1.IH" have "hd (digits_of (n div 10)) \<noteq> CHR ''0''" by simp
    with False show ?thesis
      by (subst digits_of.simps) (simp add: digits_of_not_Nil)
  qed
qed

lemma length_digits_of: "1 < length (digits_of n) \<Longrightarrow> 10 \<le> n"
  by (subst (asm) digits_of.simps) (simp split: if_splits)

lemma takeWhile_digits:
  "0 \<le> n \<Longrightarrow> \<not> is_digit c \<Longrightarrow> takeWhile is_digit (digits_of n @ c # rest) = digits_of n"
  by (simp add: takeWhile_append2 digits_of_digits)

lemma dropWhile_digits:
  "0 \<le> n \<Longrightarrow> \<not> is_digit c \<Longrightarrow> dropWhile is_digit (digits_of n @ c # rest) = c # rest"
  by (simp add: dropWhile_append2 digits_of_digits)

lemma lex_number_digits:
  assumes n: "0 \<le> n" and c: "c \<in> {CHR '','', CHR ''}'', CHR '']''}"
  shows "lex_number (digits_of n @ c # rest) = Some (JNumber n, c # rest)"
    and "lex_number (CHR ''-'' # digits_of n @ c # rest) = Some (JNumber (- n), c # rest)"
proof -
  have nd: "\<not> is_digit c" using c by (auto simp: is_digit_def)
  have h: "hd (digits_of n @ c # rest) \<noteq> CHR ''-''"
    using digits_of_digits [OF n, of "hd (digits_of n)"] digits_of_not_Nil [of n]
    by (auto simp: is_digit_def)
  have ne: "digits_of n @ c # rest \<noteq> []" by simp
  have lead: "\<not> (1 < length (digits_of n) \<and> hd (digits_of n) = CHR ''0'')"
    using length_digits_of [of n] hd_digits_of [of n] by auto
  have fr: "lex_fraction (c # rest) = Some (False, c # rest)"
    using c by (auto simp: lex_fraction_def)
  have ex: "lex_exponent (c # rest) = Some (False, c # rest)"
    using c by (auto simp: lex_exponent_def)
  show "lex_number (digits_of n @ c # rest) = Some (JNumber n, c # rest)"
    using h lead
    by (simp add: lex_number_def Let_def takeWhile_digits [OF n nd] dropWhile_digits [OF n nd]
        digits_of_not_Nil fr ex decimal_digits_of [OF n])
  show "lex_number (CHR ''-'' # digits_of n @ c # rest) = Some (JNumber (- n), c # rest)"
    using lead
    by (simp add: lex_number_def Let_def takeWhile_digits [OF n nd] dropWhile_digits [OF n nd]
        digits_of_not_Nil fr ex decimal_digits_of [OF n])
qed

lemma lex_number_text:
  "c \<in> {CHR '','', CHR ''}'', CHR '']''} \<Longrightarrow>
   lex_number (number_text n @ c # rest) = Some (JNumber n, c # rest)"
  using lex_number_digits [of n c rest] lex_number_digits [of "- n" c rest]
  by (cases "n < 0") (simp_all add: number_text_def)

lemma skip_ws_Cons: "\<not> is_json_ws c \<Longrightarrow> skip_ws (c # cs) = c # cs"
  by (simp add: skip_ws_def)

lemma not_ws [simp]:
  "\<not> is_json_ws (CHR 0x22)" "\<not> is_json_ws (CHR '':'')" "\<not> is_json_ws (CHR '','')"
  "\<not> is_json_ws (CHR ''}'')" "\<not> is_json_ws (CHR '']'')" "\<not> is_json_ws (CHR ''{'')"
  "\<not> is_json_ws (CHR ''['')" "\<not> is_json_ws (CHR ''-'')"
  by (simp_all add: is_json_ws_def)

lemma is_digit_not_ws: "is_digit c \<Longrightarrow> \<not> is_json_ws c"
  by (auto simp: is_digit_def is_json_ws_def)

lemma is_digit_not_special:
  "is_digit c \<Longrightarrow> c \<noteq> CHR ''['' \<and> c \<noteq> CHR ''{'' \<and> c \<noteq> CHR 0x22"
  by (auto simp: is_digit_def)

lemma parse_value_string:
  "parse_value (Suc n) (json_quote s @ rest) = Some (JString (Some s), rest)"
  by (simp add: json_quote_def skip_ws_Cons lex_chars_quoted)

lemma number_text_head:
  "\<exists>ch cs. number_text k = ch # cs \<and> (ch = CHR ''-'' \<or> is_digit ch)"
proof (cases "k < 0")
  case True
  then show ?thesis by (simp add: number_text_def)
next
  case False
  then have k: "0 \<le> k" by simp
  obtain ch cs where d: "digits_of k = ch # cs"
    using digits_of_not_Nil [of k] by (cases "digits_of k") auto
  then have "is_digit ch" using digits_of_digits [OF k, of ch] by simp
  with d False show ?thesis by (simp add: number_text_def)
qed

lemma parse_value_number:
  assumes c: "c \<in> {CHR '','', CHR ''}'', CHR '']''}"
  shows "parse_value (Suc n) (number_text k @ c # rest) = Some (JNumber k, c # rest)"
proof -
  obtain ch cs where t: "number_text k = ch # cs" and h: "ch = CHR ''-'' \<or> is_digit ch"
    using number_text_head by blast
  have ws: "\<not> is_json_ws ch" using h is_digit_not_ws by auto
  have sp: "ch \<noteq> CHR ''['' \<and> ch \<noteq> CHR ''{'' \<and> ch \<noteq> CHR 0x22"
    using h is_digit_not_special by auto
  have "parse_value (Suc n) ((ch # cs) @ c # rest) = lex_number ((ch # cs) @ c # rest)"
    using h sp by (simp add: skip_ws_Cons [OF ws])
  then show ?thesis
    using lex_number_text [OF c, of k rest] by (simp add: t)
qed

lemma parse_members_more:
  assumes "parse_value n (vt @ CHR '','' # rest) = Some (v, CHR '','' # rest)"
  shows "parse_members (Suc n) acc (json_quote k @ CHR '':'' # vt @ CHR '','' # rest) =
         parse_members n (acc @ [(Some k, v)]) rest"
  using assms by (simp add: json_quote_def skip_ws_Cons lex_chars_quoted)

lemma parse_members_last:
  assumes "parse_value n (vt @ CHR ''}'' # rest) = Some (v, CHR ''}'' # rest)"
  shows "parse_members (Suc n) acc (json_quote k @ CHR '':'' # vt @ CHR ''}'' # rest) =
         Some (JObject (acc @ [(Some k, v)]), rest)"
  using assms by (simp add: json_quote_def skip_ws_Cons lex_chars_quoted)

lemma parse_value_item:
  "parse_value (Suc (Suc (Suc (Suc (Suc (Suc n)))))) (item_text item @ rest) =
   Some (item_json item, rest)"
proof -
  let ?q = "AnswerHistoryItem.question item" and ?a = "AnswerHistoryItem.answer item"
  let ?i = "AnswerHistoryItem.inferenceTime item" and ?t = "timestamp item"
  let ?m4 = "json_quote ''timestamp'' @ CHR '':'' # number_text ?t @ CHR ''}'' # rest"
  let ?m3 = "json_quote ''inferenceTime'' @ CHR '':'' # json_quote ?i @ CHR '','' # ?m4"
  let ?m2 = "json_quote ''answer'' @ CHR '':'' # json_quote ?a @ CHR '','' # ?m3"
  let ?m1 = "json_quote ''question'' @ CHR '':'' # json_quote ?q @ CHR '','' # ?m2"
  have shape: "item_text item @ rest = CHR ''{'' # ?m1"
    by (simp add: item_text_def)
  have first: "skip_ws ?m1 = ?m1" "hd ?m1 = CHR 0x22"
    by (simp_all add: json_quote_def skip_ws_Cons)
  have open_brace: "parse_value (Suc (Suc (Suc (Suc (Suc (Suc n)))))) (CHR ''{'' # ?m1) =
        parse_members (Suc (Suc (Suc (Suc (Suc n))))) [] ?m1"
    by (simp add: skip_ws_Cons json_quote_def)
  have s1: "parse_members (Suc (Suc (Suc (Suc (Suc n))))) [] ?m1 =
            parse_members (Suc (Suc (Suc (Suc n)))) ([] @ [(Some ''question'', JString (Some ?q))]) ?m2"
    by (rule parse_members_more) (rule parse_value_string)
  have s2: "parse_members (Suc (Suc (Suc (Suc n)))) [(Some ''question'', JString (Some ?q))] ?m2 =
            parse_members (Suc (Suc (Suc n)))
              ([(Some ''question'', JString (Some ?q))] @ [(Some ''answer'', JString (Some ?a))]) ?m3"
    by (rule parse_members_more) (rule parse_value_string)
  have s3: "parse_members (Suc (Suc (Suc n)))
              [(Some ''question'', JString (Some ?q)), (Some ''answer'', JString (Some ?a))] ?m3 =
            parse_members (Suc (Suc n))
              ([(Some ''question'', JString (Some ?q)), (Some ''answer'', JString (Some ?a))]
               @ [(Some ''inferenceTime'', JString (Some ?i))]) ?m4"
    by (rule parse_members_more) (rule parse_value_string)
  have s4: "parse_members (Suc (Suc n))
              [(Some ''question'', JString (Some ?q)), (Some ''answer'', JString (Some ?a)),
               (Some ''inferenceTime'', JString (Some ?i))] ?m4 =
            Some (JObject
              ([(Some ''question'', JString (Some ?q)), (Some ''answer'', JString (Some ?a)),
                (Some ''inferenceTime'', JString (Some ?i))] @ [(Some ''timestamp'', JNumber ?t)]),
              rest)"
    by (rule parse_members_last) (rule parse_value_number, simp)
  show ?thesis
    unfolding shape open_brace using s1 s2 s3 s4 by (simp add: item_json_def)
qed

lemma parse_value_item_fuel:
  assumes "6 \<le> m"
  shows "parse_value m (item_text item @ rest) = Some (item_json item, rest)"
proof -
  have "m = Suc (Suc (Suc (Suc (Suc (Suc (m - 6))))))"
    using assms by arith
  then show ?thesis by (metis parse_value_item)
qed

lemma parse_elements_items:
  "length its + 7 \<le> n \<Longrightarrow>
   parse_elements n acc (join_comma (map item_text (item # its)) @ CHR '']'' # rest) =
   Some (JArray (acc @ map item_json (item # its)), rest)"
proof (induction its arbitrary: item acc n)
  case Nil
  then obtain m where n: "n = Suc m" and m: "6 \<le> m"
    by (cases n) auto
  show ?case
    by (simp add: n parse_value_item_fuel [OF m] skip_ws_Cons)
next
  case (Cons item2 its)
  then obtain m where n: "n = Suc m" and m: "6 \<le> m" and m': "length its + 7 \<le> m"
    by (cases n) auto
  have shape: "join_comma (map item_text (item # item2 # its)) @ CHR '']'' # rest =
               item_text item @ CHR '','' # join_comma (map item_text (item2 # its)) @ CHR '']'' # rest"
    by simp
  have ih: "parse_elements m (acc @ [item_json item])
              (join_comma (map item_text (item2 # its)) @ CHR '']'' # rest) =
            Some (JArray ((acc @ [item_json item]) @ map item_json (item2 # its)), rest)"
    using m' by (rule Cons.IH)
  have "parse_elements (Suc m) acc
          (item_text item @ CHR '','' # join_comma (map item_text (item2 # its)) @ CHR '']'' # rest) =
        parse_elements m (acc @ [item_json item])
          (join_comma (map item_text (item2 # its)) @ CHR '']'' # rest)"
    by (simp add: parse_value_item_fuel [OF m] skip_ws_Cons del: join_comma.simps list.map)
  then show ?case
    unfolding shape n ih by simp
qed

lemma length_item_text: "4 \<le> length (item_text item)"
  by (simp add: item_text_def)

lemma length_join_comma: "4 * length h \<le> length (join_comma (map item_text h))"
proof (induction h rule: induct_list012)
  case 1
  show ?case by simp
next
  case (2 x)
  show ?case using length_item_text [of x] by simp
next
  case (3 x y zs)
  then show ?case using length_item_text [of x] by simp
qed

lemma item_text_head: "\<exists>cs. item_text item = CHR ''{'' # cs"
  by (simp add: item_text_def)

lemma parse_value_open_array:
  "parse_value (Suc n) (CHR ''['' # CHR ''{'' # cs) = parse_elements n [] (CHR ''{'' # cs)"
  by (simp add: skip_ws_Cons)

lemma json_parse_engine_stringify: "json_parse (engine_stringify h) = Some (JArray (map item_json h))"
proof (cases h)
  case Nil
  then show ?thesis
    by (simp add: json_parse_def engine_stringify_def skip_ws_def is_json_ws_def eval_nat_numeral)
next
  case (Cons item its)
  let ?body = "join_comma (map item_text (item # its)) @ CHR '']'' # []"
  have shape: "engine_stringify h = CHR ''['' # ?body"
    by (simp add: engine_stringify_def Cons)
  obtain cs where body: "?body = CHR ''{'' # cs"
  proof (cases its)
    case Nil
    then show ?thesis using item_text_head [of item] that by auto
  next
    case (Cons a list)
    then show ?thesis using item_text_head [of item] that by auto
  qed
  define F where "F = 2 * length (engine_stringify h)"
  have len: "length its + 7 \<le> F"
    using length_join_comma [of "item # its"] by (simp add: F_def engine_stringify_def Cons)
  have "parse_value (Suc F) (engine_stringify h) = parse_value (Suc F) (CHR ''['' # ?body)"
    by (simp only: shape)
  also have "\<dots> = parse_elements F [] ?body"
    by (simp only: body parse_value_open_array)
  also have "\<dots> = Some (JArray ([] @ map item_json (item # its)), [])"
    using len by (rule parse_elements_items)
  finally have pv: "parse_value (Suc F) (engine_stringify h) = Some (JArray (map item_json h), [])"
    by (simp add: Cons)
  have fuel: "2 * length (engine_stringify h) + 1 = Suc F"
    by (simp add: F_def)
  show ?thesis
    by (simp only: json_parse_def fuel pv) (simp add: skip_ws_def)
qed

lemma decode_item_json: "decode_item (item_json item) = Some (Inr item)"
  by (simp add: decode_item_def item_json_def member_def)

lemma decode_items_json: "decode_items (map item_json h) = Some (Inr h)"
  by (induction h) (simp_all add: decode_item_json)

lemma engine_parse_engine_stringify: "engine_parse (engine_stringify h) = Inr h"
  by (simp add: engine_parse_def json_parse_engine_stringify decode_history_def decode_items_json)

lemma engine_stringify_not_Nil: "engine_stringify h \<noteq> []"
  by (simp add: engine_stringify_def)

lemma engine_simps:
  "JSON_stringify (engine lc) = engine_stringify"
  "JSON_parse (engine lc) = engine_parse"
  "localeCompare (engine lc) = lc"
  by (simp_all add: engine_def)


section \<open>The history and its persisted copy\<close>

lemma Number_items: "map (\<lambda>item. item\<lparr>timestamp := Number (timestamp item)\<rparr>) h = h"
  by (induction h) (simp_all add: Number_def)

lemma setItem_accepted:
  "stored_size (AList.update k v (localStorage b)) \<le> quota b \<Longrightarrow>
   setItem k v b = Inr (b\<lparr>localStorage := AList.update k v (localStorage b)\<rparr>)"
  by (simp add: setItem_def Let_def)

lemma setItem_rejected:
  "\<not> stored_size (AList.update k v (localStorage b)) \<le> quota b \<Longrightarrow>
   setItem k v b = Inl QuotaExceededError"
  by (simp add: setItem_def Let_def)

text \<open>
  C6. When the text stored under the key does not parse, loading raises nothing: it leaves
  \<open>answerHistory\<close> empty (for the empty text, which is never handed to the parser, it
  leaves it as it was, and that is empty at start-up), leaves \<open>errorMessage\<close> alone, and
  writes one \<^verbatim>\<open>console.error\<close> line. The unparsable text is not used; it stays in the
  store. After \<open>ngOnInit\<close> on the new component the history and its view are empty.
\<close>

theorem loadHistory_discards_unparsable:
  assumes "getItem STORAGE_KEY b = Some blob" and "JSON_parse P blob = Inl e"
  shows "answerHistory (fst (loadHistoryFromLocalStorage P (c, b))) =
           (if blob = [] then answerHistory c else [])
     \<and> errorMessage (fst (loadHistoryFromLocalStorage P (c, b))) = errorMessage c
     \<and> localStorage (snd (loadHistoryFromLocalStorage P (c, b))) = localStorage b
     \<and> console (snd (loadHistoryFromLocalStorage P (c, b))) =
           (if blob = [] then console b
            else console b @ [ConsoleError ''Failed to load history from local storage''])
     \<and> answerHistory (fst (fst (ngOnInit P (AppComponent_new, b)))) = []
     \<and> filteredHistory (fst (fst (ngOnInit P (AppComponent_new, b)))) = []
     \<and> errorMessage (fst (fst (ngOnInit P (AppComponent_new, b)))) = []"
  using assms
  by (simp add: console_error_def checkApiStatus_def applySortingAndFiltering_def
      AppComponent_new_def Array_sort_def)

theorem loadHistory_discards_unparsable_witness:
  "getItem STORAGE_KEY corrupted_browser = Some ''[{question:''
   \<and> JSON_parse example_platform ''[{question:'' = Inl SyntaxError
   \<and> answerHistory (fst (loadHistoryFromLocalStorage example_platform
        (ready_component\<lparr>answerHistory := [record_A]\<rparr>, corrupted_browser))) = []
   \<and> errorMessage (fst (loadHistoryFromLocalStorage example_platform
        (ready_component\<lparr>answerHistory := [record_A]\<rparr>, corrupted_browser))) = []
   \<and> console (snd (loadHistoryFromLocalStorage example_platform
        (ready_component\<lparr>answerHistory := [record_A]\<rparr>, corrupted_browser))) =
       [ConsoleError ''Failed to load history from local storage'']
   \<and> answerHistory (fst (fst (ngOnInit example_platform (AppComponent_new, corrupted_browser)))) = []
   \<and> filteredHistory (fst (fst (ngOnInit example_platform (AppComponent_new, corrupted_browser)))) = []"
proof -
  have g: "getItem STORAGE_KEY corrupted_browser = Some ''[{question:''"
    by (simp add: getItem_def corrupted_browser_def)
  have p: "JSON_parse example_platform ''[{question:'' = Inl SyntaxError"
    by code_simp
  show ?thesis
    using g p loadHistory_discards_unparsable
      [OF g p, of "ready_component\<lparr>answerHistory := [record_A]\<rparr>"]
    by (simp add: ready_component_def AppComponent_new_def corrupted_browser_def)
qed

text \<open>
  C7. \<open>clearHistory\<close> does nothing unless the user confirms the dialog. When the user
  confirms, \<open>answerHistory\<close> and \<open>filteredHistory\<close> are empty afterwards and the store has
  no entry under the key.
\<close>

theorem clearHistory_empties_memory_and_storage:
  "clearHistory False (c, b) = (c, b)
   \<and> answerHistory (fst (clearHistory True (c, b))) = []
   \<and> filteredHistory (fst (clearHistory True (c, b))) = []
   \<and> getItem STORAGE_KEY (snd (clearHistory True (c, b))) = None"
  by (simp add: getItem_def removeItem_def console_log_def delete_conv)

text \<open>
  Saving and loading on the engine's JSON: after an accepted write, loading gives the
  history that was saved; a rejected write is caught and logged and leaves the store, and
  so what loading gives, as it was.
\<close>

lemma load_after_accepted_save:
  assumes accepted:
      "stored_size (AList.update STORAGE_KEY (engine_stringify h) (localStorage b)) \<le> quota b"
    and h: "answerHistory c = h"
  shows "answerHistory (fst (loadHistoryFromLocalStorage (engine lc)
           (c2, saveHistoryToLocalStorage (engine lc) c b))) = h"
proof -
  let ?b' = "saveHistoryToLocalStorage (engine lc) c b"
  have "getItem STORAGE_KEY ?b' = Some (engine_stringify h)"
    using setItem_accepted [OF accepted]
    by (simp add: saveHistoryToLocalStorage_def console_log_def getItem_def update_conv
        engine_simps h)
  then show ?thesis
    by (simp add: engine_simps engine_stringify_not_Nil engine_parse_engine_stringify Number_items)
qed

lemma rejected_save:
  assumes "\<not> stored_size (AList.update STORAGE_KEY (JSON_stringify P (answerHistory c))
                (localStorage b)) \<le> quota b"
  shows "saveHistoryToLocalStorage P c b =
         console_error ''Failed to save history to local storage'' b"
  using setItem_rejected [OF assms] by (simp add: saveHistoryToLocalStorage_def)

lemma load_console_error:
  "answerHistory (fst (loadHistoryFromLocalStorage P (c2, console_error msg b))) =
   answerHistory (fst (loadHistoryFromLocalStorage P (c2, b)))"
  by (simp add: console_error_def console_log_def getItem_def split: option.splits sum.splits)

lemma example_blob_text: "example_blob = engine_stringify [example_item]"
  by code_simp

lemma length_three_items: "length (engine_stringify [example_item, quoted_item, third_item]) = 264"
  by code_simp

lemma length_two_items: "length (engine_stringify [example_item, third_item]) = 168"
  by code_simp

lemma length_example_blob: "length example_blob = 82"
  by code_simp

text \<open>
  C3, as the code has it, on the engine's JSON. Append a record \<open>r\<close> to the history of
  \<open>c\<close> and save. If the store accepts the write, loading into any component \<open>c2\<close> (the
  new component of a reload among them) gives the history with \<open>r\<close> appended. If the store
  rejects the write, the error is caught: the store is as it was, one \<^verbatim>\<open>console.error\<close>
  line is written, and loading gives what it gave before the append.
\<close>

theorem save_then_reload:
  "(stored_size (AList.update STORAGE_KEY (JSON_stringify (engine lc) (answerHistory c @ [r]))
        (localStorage b)) \<le> quota b \<longrightarrow>
      answerHistory (fst (loadHistoryFromLocalStorage (engine lc)
        (c2, saveHistoryToLocalStorage (engine lc) (c\<lparr>answerHistory := answerHistory c @ [r]\<rparr>) b))) =
      answerHistory c @ [r])
   \<and> (\<not> stored_size (AList.update STORAGE_KEY (JSON_stringify (engine lc) (answerHistory c @ [r]))
          (localStorage b)) \<le> quota b \<longrightarrow>
        localStorage (saveHistoryToLocalStorage (engine lc)
          (c\<lparr>answerHistory := answerHistory c @ [r]\<rparr>) b) = localStorage b
        \<and> console (saveHistoryToLocalStorage (engine lc)
            (c\<lparr>answerHistory := answerHistory c @ [r]\<rparr>) b) =
          console b @ [ConsoleError ''Failed to save history to local storage'']
        \<and> answerHistory (fst (loadHistoryFromLocalStorage (engine lc)
            (c2, saveHistoryToLocalStorage (engine lc)
                   (c\<lparr>answerHistory := answerHistory c @ [r]\<rparr>) b))) =
          answerHistory (fst (loadHistoryFromLocalStorage (engine lc) (c2, b))))"
proof (intro conjI impI)
  let ?c = "c\<lparr>answerHistory := answerHistory c @ [r]\<rparr>"
  {
    assume "stored_size (AList.update STORAGE_KEY (JSON_stringify (engine lc) (answerHistory c @ [r]))
        (localStorage b)) \<le> quota b"
    then have "stored_size (AList.update STORAGE_KEY (engine_stringify (answerHistory c @ [r]))
        (localStorage b)) \<le> quota b"
      by (simp add: engine_simps)
    then show "answerHistory (fst (loadHistoryFromLocalStorage (engine lc)
        (c2, saveHistoryToLocalStorage (engine lc) ?c b))) = answerHistory c @ [r]"
      by (rule load_after_accepted_save) simp
  }
  {
    assume "\<not> stored_size (AList.update STORAGE_KEY (JSON_stringify (engine lc) (answerHistory c @ [r]))
          (localStorage b)) \<le> quota b"
    then have rej: "saveHistoryToLocalStorage (engine lc) ?c b =
        console_error ''Failed to save history to local storage'' b"
      by (intro rejected_save) simp
    show "localStorage (saveHistoryToLocalStorage (engine lc) ?c b) = localStorage b"
      by (simp add: rej console_error_def)
    show "console (saveHistoryToLocalStorage (engine lc) ?c b) =
          console b @ [ConsoleError ''Failed to save history to local storage'']"
      by (simp add: rej console_error_def)
    show "answerHistory (fst (loadHistoryFromLocalStorage (engine lc)
            (c2, saveHistoryToLocalStorage (engine lc) ?c b))) =
          answerHistory (fst (loadHistoryFromLocalStorage (engine lc) (c2, b)))"
      by (simp only: rej load_console_error)
  }
qed

theorem save_then_reload_witness:
  "stored_size (AList.update STORAGE_KEY
       (JSON_stringify example_platform (answerHistory busy_component @ [third_item]))
       (localStorage used_browser)) \<le> quota used_browser
   \<and> answerHistory (fst (loadHistoryFromLocalStorage example_platform
        (AppComponent_new,
         saveHistoryToLocalStorage example_platform
           (busy_component\<lparr>answerHistory := answerHistory busy_component @ [third_item]\<rparr>)
           used_browser))) = [example_item, quoted_item, third_item]
   \<and> \<not> stored_size (AList.update STORAGE_KEY
       (JSON_stringify example_platform (answerHistory stored_component @ [third_item]))
       (localStorage tight_browser)) \<le> quota tight_browser
   \<and> localStorage (saveHistoryToLocalStorage example_platform
        (stored_component\<lparr>answerHistory := answerHistory stored_component @ [third_item]\<rparr>)
        tight_browser) = localStorage tight_browser
   \<and> answerHistory (fst (loadHistoryFromLocalStorage example_platform
        (AppComponent_new,
         saveHistoryToLocalStorage example_platform
           (stored_component\<lparr>answerHistory := answerHistory stored_component @ [third_item]\<rparr>)
           tight_browser))) = [example_item]"
proof -
  have hb: "answerHistory busy_component @ [third_item] = [example_item, quoted_item, third_item]"
    by (simp add: busy_component_def)
  have hs: "answerHistory stored_component @ [third_item] = [example_item, third_item]"
    by (simp add: stored_component_def)
  have a: "stored_size (AList.update STORAGE_KEY
       (JSON_stringify (engine compare_code_units) (answerHistory busy_component @ [third_item]))
       (localStorage used_browser)) \<le> quota used_browser"
    by (simp add: hb engine_simps used_browser_def stored_size_def STORAGE_KEY_def
        length_three_items)
  have r: "\<not> stored_size (AList.update STORAGE_KEY
       (JSON_stringify (engine compare_code_units) (answerHistory stored_component @ [third_item]))
       (localStorage tight_browser)) \<le> quota tight_browser"
    by (simp add: hs engine_simps tight_browser_def stored_size_def STORAGE_KEY_def
        length_two_items)
  have before: "answerHistory (fst (loadHistoryFromLocalStorage (engine compare_code_units)
        (AppComponent_new, tight_browser))) = [example_item]"
    using length_example_blob
    by (auto simp: tight_browser_def getItem_def engine_simps Number_items
        example_blob_text engine_parse_engine_stringify)
  show ?thesis
    using a r before hb
      save_then_reload [of compare_code_units busy_component third_item used_browser
        AppComponent_new]
      save_then_reload [of compare_code_units stored_component third_item tight_browser
        AppComponent_new]
    by (simp add: example_platform_def)
qed

text \<open>
  C3, as it is stated, fails where the store rejects the write: nothing is stored, and a
  reload starts with an empty history while the list in memory holds three records.
\<close>

theorem save_then_reload_counterexample:
  "answerHistory (fst (loadHistoryFromLocalStorage example_platform
        (AppComponent_new,
         saveHistoryToLocalStorage example_platform
           (busy_component\<lparr>answerHistory := answerHistory busy_component @ [third_item]\<rparr>)
           full_browser))) \<noteq> answerHistory busy_component @ [third_item]"
proof -
  let ?c = "busy_component\<lparr>answerHistory := answerHistory busy_component @ [third_item]\<rparr>"
  have "\<not> stored_size (AList.update STORAGE_KEY
            (JSON_stringify example_platform (answerHistory ?c)) (localStorage full_browser))
          \<le> quota full_browser"
    by (simp add: full_browser_def stored_size_def STORAGE_KEY_def)
  then have "saveHistoryToLocalStorage example_platform ?c full_browser =
             console_error ''Failed to save history to local storage'' full_browser"
    by (rule rejected_save)
  then have "answerHistory (fst (loadHistoryFromLocalStorage example_platform
                (AppComponent_new, saveHistoryToLocalStorage example_platform ?c full_browser))) =
             answerHistory (fst (loadHistoryFromLocalStorage example_platform
                (AppComponent_new, full_browser)))"
    by (simp only: load_console_error)
  also have "\<dots> = []"
    by (simp add: full_browser_def getItem_def AppComponent_new_def)
  finally show ?thesis
    by (simp add: busy_component_def)
qed











end
